theory Spec2Isabelle
  imports Complex_Main "HOL-Library.Word"
begin

section \<open>Scalars of the program\<close>

type_synonym gluint = "32 word"
type_synonym byte = "8 word"

subsection \<open>The C++ type float\<close>

text \<open>
  \<open>m_zoom\<close> and every ImGui coordinate is a C++ \<open>float\<close>, an IEEE-754 binary32 number:
  one sign bit, an 8-bit biased exponent and a 23-bit fraction. The three fields are kept
  as they are stored. Exponent field 0 holds zero and the subnormal numbers, 255 holds the
  infinities (fraction 0) and the NaNs, 1 to 254 hold the normal numbers.
\<close>

record float =
  sign :: bool
  expo :: nat
  frac :: nat

definition valid_float :: "float \<Rightarrow> bool" where
  "valid_float x \<longleftrightarrow> expo x \<le> 255 \<and> frac x < 2 ^ 23"

definition is_finite :: "float \<Rightarrow> bool" where
  "is_finite x \<longleftrightarrow> expo x < 255"

text \<open>The number a finite float stands for: \<open>\<plusminus> significand \<times> 2\<^sup>e\<^sup>-\<^sup>1 / 2\<^sup>1\<^sup>4\<^sup>9\<close>.\<close>

definition valof :: "float \<Rightarrow> real" where
  "valof x =
     (if sign x then - 1 else 1) *
     (if expo x = 0 then real (frac x) else real (2 ^ 23 + frac x) * 2 ^ (expo x - 1)) / 2 ^ 149"

definition float_one :: float where
  "float_one = \<lparr>sign = False, expo = 127, frac = 0\<rparr>"

definition float_zero :: float where
  "float_zero = \<lparr>sign = False, expo = 0, frac = 0\<rparr>"

definition float_infinity :: float where
  "float_infinity = \<lparr>sign = False, expo = 255, frac = 0\<rparr>"

text \<open>A NaN operand comes back as a quiet NaN: the top bit of the fraction is set.\<close>

definition quiet :: "float \<Rightarrow> float" where
  "quiet x = (if frac x = 0 \<or> 2 ^ 22 \<le> frac x then x else x\<lparr>frac := frac x + 2 ^ 22\<rparr>)"

text \<open>
  \<open>x * 2.0f\<close> in round-to-nearest-even. Doubling is exact until the exponent field
  would reach 255: past the largest finite float the result is an infinity.
\<close>

definition float_mul_2 :: "float \<Rightarrow> float" where
  "float_mul_2 x =
     (if expo x \<ge> 255 then quiet x
      else if expo x = 0 then
        (if 2 * frac x < 2 ^ 23 then x\<lparr>frac := 2 * frac x\<rparr>
         else x\<lparr>expo := 1, frac := 2 * frac x - 2 ^ 23\<rparr>)
      else if expo x = 254 then x\<lparr>expo := 255, frac := 0\<rparr>
      else x\<lparr>expo := expo x + 1\<rparr>)"

text \<open>Half of a significand, a tie going to the even neighbour.\<close>

definition round_half_even :: "nat \<Rightarrow> nat" where
  "round_half_even m =
     (if even m then m div 2 else if even (m div 2) then m div 2 else m div 2 + 1)"

text \<open>
  \<open>x / 2.0f\<close> in round-to-nearest-even. Halving is exact while the result is normal; a
  result below the smallest normal number is rounded to the subnormal grid.
\<close>

definition float_div_2 :: "float \<Rightarrow> float" where
  "float_div_2 x =
     (if expo x \<ge> 255 then quiet x
      else if expo x \<ge> 2 then x\<lparr>expo := expo x - 1\<rparr>
      else
        (let m = (if expo x = 1 then 2 ^ 23 + frac x else frac x);
             q = round_half_even m
         in if q \<ge> 2 ^ 23 then x\<lparr>expo := 1, frac := q - 2 ^ 23\<rparr>
            else x\<lparr>expo := 0, frac := q\<rparr>))"

type_synonym imvec2 = "float \<times> float"

section \<open>Wrappers of the graphics and image libraries\<close>

datatype exn = Out_of_range | ShaderException

subsection \<open>Program\<close>

text \<open>
  A \<open>Program\<close> is the handle of a linked GPU program. \<open>Program(path_vert, path_frag)\<close>
  compiles the two stages; the outcome of each stage is kept with the handle.
\<close>

record program =
  program_id :: gluint
  vertex_failed :: bool
  fragment_failed :: bool

text \<open>
  Modelled from the spec: \<open>Program::has_failed\<close> is declared in \<open>program.hpp\<close>, which is
  not among the sources. The constructors call it under the comment "vertex or fragment
  shaders failed to compile", and the spec names a "shader-compilation failure (vertex or
  fragment stage)".
\<close>

definition has_failed :: "program \<Rightarrow> bool" where
  "has_failed p \<longleftrightarrow> vertex_failed p \<or> fragment_failed p"

text \<open>
  The field \<open>id\<close> of the source is \<open>program_id\<close> here (and \<open>texture_id\<close> for a texture),
  since \<open>id\<close> is the identity function of HOL.
\<close>

text \<open>\<open>Program(GLuint id)\<close>: a handle rebuilt from an identifier, nothing compiled.\<close>

definition Program_of_id :: "gluint \<Rightarrow> program" where
  "Program_of_id i = \<lparr>program_id = i, vertex_failed = False, fragment_failed = False\<rparr>"

subsection \<open>Image\<close>

text \<open>
  An \<open>Image\<close> object is a pointer to a pixel buffer on the heap together with the
  dimensions of the picture. The heap is a map from addresses to the buffers that are
  allocated; releasing a buffer removes its address. A file of the file system holds the
  dimensions and the pixels of a picture.
\<close>

type_synonym addr = nat

record image =
  data :: "addr option"
  width :: nat
  height :: nat
  n_channels :: nat

record raster =
  raster_width :: nat
  raster_height :: nat
  raster_channels :: nat
  raster_pixels :: "byte list"

subsection \<open>Texture2D\<close>

text \<open>The GPU-resident copy of an image: its identifier, its size and the uploaded pixels.\<close>

record texture2d =
  texture_id :: gluint
  texture_width :: nat
  texture_height :: nat
  texture_pixels :: "byte list"

section \<open>Process-wide state\<close>

datatype ClickMode = ClickMode_NONE | DRAW_CIRCLE | DRAW_LINE
datatype HoverMode = HoverMode_NONE | IMAGE_SUBSET | PIXEL_VALUE

text \<open>
  The matrix handed to the shader is kept as the expression the callback builds, with the
  float operands of \<open>glm::ortho\<close> as they are read from the viewport.
\<close>

datatype mat4 = Ortho float float float float | Identity | Mat_mul mat4 mat4

datatype uniform_value = Uniform_mat4 mat4 | Uniform_texture gluint

text \<open>The commands of the current window's draw list, in the order they were appended.\<close>

datatype draw_cmd =
    Callback_draw_with_custom_shader
  | Callback_ResetRenderState
  | Cmd_Image gluint float nat nat
  | Cmd_tooltip_image float float
  | Cmd_tooltip_pixel float

text \<open>
  The static members \<open>Toolbar::*\<close>, \<open>Menu::*\<close> and \<open>Mouse::*\<close> through which the
  widgets and the canvas talk to each other.
\<close>

record ui_flags =
  Toolbar_open_image :: bool
  Toolbar_save_image :: bool
  Toolbar_quit_app :: bool
  Toolbar_zoom_in :: bool
  Toolbar_zoom_out :: bool
  Toolbar_draw_circle :: bool
  Toolbar_draw_line :: bool
  Toolbar_hover_mode :: HoverMode
  Menu_draw_circle :: bool
  Menu_draw_line :: bool
  Mouse_click_mode :: ClickMode
  Mouse_hover_mode :: HoverMode

text \<open>
  Everything else that is not a member of one \<open>Canvas\<close> object: the heap and the file
  system, the OpenGL context, the ImGui frame and the static member
  \<open>Canvas::callback_data\<close>.
\<close>

record world =
  heap :: "addr \<rightharpoonup> byte list"
  next_addr :: addr
  files :: "string \<rightharpoonup> raster"
  next_texture :: gluint
  gl_program :: "gluint option"
  gl_uniforms :: "gluint \<times> string \<rightharpoonup> uniform_value"
  gl_texture :: "gluint option"
  gl_draws :: "(gluint option \<times> gluint) list"
  DisplaySize :: imvec2
  draw_list :: "draw_cmd list"
  callback_data :: "gluint \<times> gluint"
  ui :: ui_flags

text \<open>
  Modelled from the spec: the class \<open>Image\<close> (\<open>image.hpp\<close>) is not among the sources.
  The constructor \<open>Image(path, flip)\<close> reads a picture from the file system into a
  buffer of its own; a path without a readable picture gives the null image (the spec
  leaves load failures to the image library). \<open>free\<close> releases the buffer and \<open>save\<close>
  writes the picture to a path.
\<close>

definition null_image :: image where
  "null_image = \<lparr>data = None, width = 0, height = 0, n_channels = 0\<rparr>"

definition Image_alloc :: "raster \<Rightarrow> world \<Rightarrow> image \<times> world" where
  "Image_alloc r w =
     (\<lparr>data = Some (next_addr w), width = raster_width r, height = raster_height r,
       n_channels = raster_channels r\<rparr>,
      w\<lparr>heap := (heap w)(next_addr w \<mapsto> raster_pixels r), next_addr := Suc (next_addr w)\<rparr>)"

definition Image_load :: "string \<Rightarrow> world \<Rightarrow> image \<times> world" where
  "Image_load path w =
     (case files w path of None \<Rightarrow> (null_image, w) | Some r \<Rightarrow> Image_alloc r w)"

definition Image_free :: "image \<Rightarrow> world \<Rightarrow> world" where
  "Image_free img w =
     (case data img of None \<Rightarrow> w | Some a \<Rightarrow> w\<lparr>heap := (heap w)(a := None)\<rparr>)"

text \<open>The pixels an image object points to, if its buffer is allocated.\<close>

definition pixels_of :: "world \<Rightarrow> image \<Rightarrow> byte list option" where
  "pixels_of w img = (case data img of None \<Rightarrow> None | Some a \<Rightarrow> heap w a)"

definition raster_of :: "world \<Rightarrow> image \<Rightarrow> raster option" where
  "raster_of w img =
     (case pixels_of w img of None \<Rightarrow> None
      | Some px \<Rightarrow> Some \<lparr>raster_width = width img, raster_height = height img,
                          raster_channels = n_channels img, raster_pixels = px\<rparr>)"

definition Image_save :: "image \<Rightarrow> string \<Rightarrow> world \<Rightarrow> world" where
  "Image_save img path w =
     (case raster_of w img of None \<Rightarrow> w | Some r \<Rightarrow> w\<lparr>files := (files w)(path \<mapsto> r)\<rparr>)"

text \<open>
  Modelled from the spec: the class \<open>Texture2D\<close> is not among the sources. A texture is
  "a GPU-resident copy of an Image": the constructor takes a fresh identifier and uploads
  the image, \<open>set_image\<close> uploads another image under the same identifier.
\<close>

definition Texture2D_set_image :: "image \<Rightarrow> world \<Rightarrow> texture2d \<Rightarrow> texture2d" where
  "Texture2D_set_image img w t =
     t\<lparr>texture_width := width img, texture_height := height img,
       texture_pixels := (case pixels_of w img of None \<Rightarrow> [] | Some px \<Rightarrow> px)\<rparr>"

definition Texture2D_new :: "image \<Rightarrow> world \<Rightarrow> texture2d \<times> world" where
  "Texture2D_new img w =
     (Texture2D_set_image img w
        \<lparr>texture_id = next_texture w, texture_width = 0, texture_height = 0, texture_pixels = []\<rparr>,
      w\<lparr>next_texture := next_texture w + 1\<rparr>)"

text \<open>
  The parts of the environment that the canvas calls and whose code is not among the
  sources are parameters: the shader compiler behind \<open>Program(path_vert, path_frag)\<close>,
  the filters \<open>ImageUtils::to_grayscale\<close>, \<open>ImageUtils::blur\<close> and
  \<open>ImageUtils::to_gray\<close> (each receives the image and the heap, and may allocate and
  release buffers), and the rasteriser behind \<open>ImageVector::draw_circle\<close>.
\<close>

record env =
  compile :: "string \<Rightarrow> string \<Rightarrow> program"
  ImageUtils_to_grayscale :: "image \<Rightarrow> world \<Rightarrow> image \<times> world"
  ImageUtils_blur :: "image \<Rightarrow> world \<Rightarrow> image \<times> world"
  ImageUtils_to_gray :: "image \<Rightarrow> world \<Rightarrow> image \<times> world"
  ImageVector_draw_circle :: "imvec2 \<Rightarrow> raster \<Rightarrow> raster"

section \<open>Canvas\<close>

text \<open>
  \<open>m_program\<close> is a pointer to an element of \<open>m_programs\<close>. An element of an
  \<open>unordered_map\<close> stays at its address until it is erased, so the pointer is the key
  of the element it points to; it dangles when the map has no element under that key.
\<close>

record canvas =
  m_image :: image
  m_texture :: texture2d
  m_programs :: "string \<rightharpoonup> program"
  m_program :: string
  m_zoom :: float

text \<open>The pointer dereferenced: \<open>*m_program\<close>.\<close>

definition deref_m_program :: "canvas \<Rightarrow> program option" where
  "deref_m_program c = m_programs c (m_program c)"

text \<open>
  The constructor. The member initialisers run in the order of the source; the body
  throws when the program \<open>m_program\<close> points to, the one under "color", has failed.
  The tooltips only keep references to the texture and the image.
\<close>

definition Canvas_new :: "env \<Rightarrow> world \<Rightarrow> (exn + canvas) \<times> world" where
  "Canvas_new e w =
     (let (img, w1) = Image_load ''./assets/images/nature.png'' w;
          (tex, w2) = Texture2D_new img w1;
          programs = [''color'' \<mapsto> compile e ''assets/shaders/basic.vert'' ''assets/shaders/color.frag'',
                      ''grayscale'' \<mapsto> compile e ''assets/shaders/basic.vert'' ''assets/shaders/grayscale.frag'',
                      ''monochrome'' \<mapsto> compile e ''assets/shaders/basic.vert'' ''assets/shaders/monochrome.frag''];
          c = \<lparr>m_image = img, m_texture = tex, m_programs = programs, m_program = ''color'',
               m_zoom = float_one\<rparr>
      in case deref_m_program c of
           None \<Rightarrow> (Inl Out_of_range, w2)
         | Some p \<Rightarrow> if has_failed p then (Inl ShaderException, w2) else (Inr c, w2))"

text \<open>
  \<open>set_shader\<close>: \<open>unordered_map::at\<close> throws \<open>std::out_of_range\<close> for a key that is not
  in the map, before anything is assigned.
\<close>

definition Canvas_set_shader :: "string \<Rightarrow> canvas \<Rightarrow> exn option \<times> canvas" where
  "Canvas_set_shader key c =
     (case m_programs c key of
        None \<Rightarrow> (Some Out_of_range, c)
      | Some p \<Rightarrow> (None, c\<lparr>m_program := key\<rparr>))"

definition Canvas_zoom_in :: "canvas \<Rightarrow> canvas" where
  "Canvas_zoom_in c = c\<lparr>m_zoom := float_mul_2 (m_zoom c)\<rparr>"

definition Canvas_zoom_out :: "canvas \<Rightarrow> canvas" where
  "Canvas_zoom_out c = c\<lparr>m_zoom := float_div_2 (m_zoom c)\<rparr>"

subsection \<open>The render-callback data relay\<close>

text \<open>
  \<open>use_shader\<close> first stores the two identifiers in the static member, then appends the
  callback, with no payload of its own (\<open>nullptr\<close>). Reading \<open>m_program->id\<close> through a
  dangling pointer is undefined behaviour: the model has no result there.
\<close>

definition add_cmd :: "draw_cmd \<Rightarrow> world \<Rightarrow> world" where
  "add_cmd cmd w = w\<lparr>draw_list := draw_list w @ [cmd]\<rparr>"

definition AddCallback :: "draw_cmd \<Rightarrow> world \<Rightarrow> world" where
  "AddCallback callback w = add_cmd callback w"

definition Canvas_use_shader :: "canvas \<Rightarrow> world \<Rightarrow> world option" where
  "Canvas_use_shader c w =
     (case deref_m_program c of
        None \<Rightarrow> None
      | Some p \<Rightarrow>
          Some (AddCallback Callback_draw_with_custom_shader
                  (w\<lparr>callback_data := (program_id p, texture_id (m_texture c))\<rparr>)))"

definition Canvas_unuse_shader :: "world \<Rightarrow> world" where
  "Canvas_unuse_shader w = AddCallback Callback_ResetRenderState w"

text \<open>
  Modelled from the spec: \<open>Program::use\<close> and \<open>Program::set_uniforms\<close> are not among the
  sources. The first makes the program the current one of the OpenGL context, the second
  stores each named value as a uniform of that program.
\<close>

definition Program_use :: "program \<Rightarrow> world \<Rightarrow> world" where
  "Program_use p w = w\<lparr>gl_program := Some (program_id p)\<rparr>"

fun Program_set_uniforms :: "program \<Rightarrow> (string \<times> uniform_value) list \<Rightarrow> world \<Rightarrow> world" where
  "Program_set_uniforms p [] w = w"
| "Program_set_uniforms p ((name, v) # us) w =
     Program_set_uniforms p us (w\<lparr>gl_uniforms := (gl_uniforms w)((program_id p, name) \<mapsto> v)\<rparr>)"

text \<open>
  The callback, run by ImGui when the frame is rendered. \<open>Texture2D(GLuint id)\<close> rebuilds
  a texture handle of which only the identifier is known.
\<close>

definition Canvas_draw_with_custom_shader :: "world \<Rightarrow> world" where
  "Canvas_draw_with_custom_shader w =
     (let program = Program_of_id (fst (callback_data w));
          texture = snd (callback_data w);
          size_viewport = DisplaySize w;
          projection2d = Ortho float_zero (fst size_viewport) (snd size_viewport) float_zero;
          view = Identity;
          model = Identity;
          transformation = Mat_mul (Mat_mul projection2d view) model;
          uniforms = [(''transformation'', Uniform_mat4 transformation),
                      (''texture2d'', Uniform_texture texture)]
      in Program_set_uniforms program uniforms (Program_use program w))"

text \<open>
  Modelled from the spec: the ImGui backend that renders a frame is not among the
  sources. It walks the draw list in order: a callback is "a hook invoked by the GUI
  library during frame rendering", the reset callback gives the context back to ImGui's
  own shader, and an image is drawn with whatever program is in use at that point.
\<close>

fun run_draw_cmd :: "draw_cmd \<Rightarrow> world \<Rightarrow> world" where
  "run_draw_cmd Callback_draw_with_custom_shader w = Canvas_draw_with_custom_shader w"
| "run_draw_cmd Callback_ResetRenderState w = w\<lparr>gl_program := None\<rparr>"
| "run_draw_cmd (Cmd_Image texture zoom w_image h_image) w =
     w\<lparr>gl_draws := gl_draws w @ [(gl_program w, texture)]\<rparr>"
| "run_draw_cmd (Cmd_tooltip_image y_offset zoom) w = w"
| "run_draw_cmd (Cmd_tooltip_pixel y_offset) w = w"

definition RenderDrawData :: "world \<Rightarrow> world" where
  "RenderDrawData w = fold run_draw_cmd (draw_list w) w"

subsection \<open>Rendering\<close>

text \<open>
  \<open>render_image\<close>. What ImGui reports for the image widget in this frame
  (\<open>IsItemClicked\<close>, \<open>IsItemHovered\<close>) is an input. The size of the widget is the product
  of \<open>m_zoom\<close> and the texture's dimensions; the command keeps the factors.
\<close>

definition Canvas_render_image :: "float \<Rightarrow> bool \<Rightarrow> bool \<Rightarrow> canvas \<Rightarrow> world \<Rightarrow> world option" where
  "Canvas_render_image y_offset IsItemClicked IsItemHovered c w =
     (case Canvas_use_shader c w of
        None \<Rightarrow> None
      | Some w1 \<Rightarrow>
          (let w2 = w1\<lparr>gl_texture := Some (texture_id (m_texture c))\<rparr>;
               w3 = add_cmd (Cmd_Image (texture_id (m_texture c)) (m_zoom c)
                      (texture_width (m_texture c)) (texture_height (m_texture c))) w2;
               w4 = (if IsItemClicked \<and> Mouse_click_mode (ui w3) = DRAW_CIRCLE
                     then w3\<lparr>ui := (ui w3)\<lparr>Toolbar_draw_circle := True, Menu_draw_circle := True\<rparr>\<rparr>
                     else w3);
               w5 = (if IsItemHovered then
                       (if Mouse_hover_mode (ui w4) = IMAGE_SUBSET
                        then add_cmd (Cmd_tooltip_image y_offset (m_zoom c)) w4
                        else if Mouse_hover_mode (ui w4) = PIXEL_VALUE
                        then add_cmd (Cmd_tooltip_pixel y_offset) w4
                        else w4)
                     else w4)
           in Some (Canvas_unuse_shader w5)))"

text \<open>
  \<open>render\<close> opens the ImGui window of the canvas around \<open>render_image\<close>. The offset
  \<open>Size::menu.y + Size::toolbar.y\<close> is an input; the window geometry is not kept.
  (\<open>Canvas::free\<close> ends the life of the texture and of the programs; no member is called
  after it, and it is not part of the sequences below.)
\<close>

definition Canvas_render :: "float \<Rightarrow> bool \<Rightarrow> bool \<Rightarrow> canvas \<Rightarrow> world \<Rightarrow> world option" where
  "Canvas_render y_offset IsItemClicked IsItemHovered c w =
     Canvas_render_image y_offset IsItemClicked IsItemHovered c w"

subsection \<open>Editing the image\<close>

text \<open>
  \<open>draw_circle\<close>. The mouse position relative to the image is an input. The vector copy
  of the image is drawn on, saved to a temporary file and released; then the previous
  image is released and the file is loaded in its place.
\<close>

definition Canvas_draw_circle :: "env \<Rightarrow> imvec2 \<Rightarrow> canvas \<Rightarrow> world \<Rightarrow> canvas \<times> world" where
  "Canvas_draw_circle e position_mouse_img c w =
     (let path_image_out = ''/tmp/image.png'';
          w1 = (case raster_of w (m_image c) of
                  None \<Rightarrow> w
                | Some r \<Rightarrow>
                    w\<lparr>files := (files w)(path_image_out \<mapsto>
                                  ImageVector_draw_circle e position_mouse_img r)\<rparr>);
          w2 = Image_free (m_image c) w1;
          (img, w3) = Image_load path_image_out w2;
          c1 = c\<lparr>m_image := img\<rparr>;
          c2 = c1\<lparr>m_texture := Texture2D_set_image img w3 (m_texture c1)\<rparr>
      in (c2, w3\<lparr>ui := (ui w3)\<lparr>Mouse_click_mode := ClickMode_NONE\<rparr>\<rparr>))"

definition Canvas_change_image :: "string \<Rightarrow> canvas \<Rightarrow> world \<Rightarrow> canvas \<times> world" where
  "Canvas_change_image path_image c w =
     (let w1 = Image_free (m_image c) w;
          (img, w2) = Image_load path_image w1;
          c1 = c\<lparr>m_image := img\<rparr>
      in (c1\<lparr>m_texture := Texture2D_set_image img w2 (m_texture c1)\<rparr>, w2))"

definition Canvas_save_image :: "string \<Rightarrow> canvas \<Rightarrow> world \<Rightarrow> world" where
  "Canvas_save_image path_image c w = Image_save (m_image c) path_image w"

text \<open>
  \<open>to_grayscale\<close> assigns the filter's result to \<open>m_image\<close>, uploads it, and then looks
  up "monochrome" with \<open>at\<close>, which throws after the first two statements have run.
\<close>

definition Canvas_to_grayscale :: "env \<Rightarrow> canvas \<Rightarrow> world \<Rightarrow> exn option \<times> canvas \<times> world" where
  "Canvas_to_grayscale e c w =
     (let (img, w1) = ImageUtils_to_grayscale e (m_image c) w;
          c1 = c\<lparr>m_image := img\<rparr>;
          c2 = c1\<lparr>m_texture := Texture2D_set_image img w1 (m_texture c1)\<rparr>
      in case m_programs c2 ''monochrome'' of
           None \<Rightarrow> (Some Out_of_range, c2, w1)
         | Some p \<Rightarrow> (None, c2\<lparr>m_program := ''monochrome''\<rparr>, w1))"

definition Canvas_blur :: "env \<Rightarrow> canvas \<Rightarrow> world \<Rightarrow> canvas \<times> world" where
  "Canvas_blur e c w =
     (let (img, w1) = ImageUtils_blur e (m_image c) w;
          c1 = c\<lparr>m_image := img\<rparr>
      in (c1\<lparr>m_texture := Texture2D_set_image img w1 (m_texture c1)\<rparr>, w1))"

subsection \<open>Sequences of member calls\<close>

datatype canvas_op =
    Op_render float bool bool
  | Op_set_shader string
  | Op_change_image string
  | Op_save_image string
  | Op_to_grayscale
  | Op_blur
  | Op_zoom_in
  | Op_zoom_out
  | Op_draw_circle imvec2

text \<open>
  One member call on a canvas. A call that throws leaves the state it had reached when
  the exception left the member, and the caller goes on from there. \<open>None\<close> stands for
  undefined behaviour.
\<close>

fun exec :: "env \<Rightarrow> canvas_op \<Rightarrow> canvas \<times> world \<Rightarrow> (canvas \<times> world) option" where
  "exec e (Op_render y_offset clicked hovered) (c, w) =
     (case Canvas_render y_offset clicked hovered c w of
        None \<Rightarrow> None | Some w' \<Rightarrow> Some (c, w'))"
| "exec e (Op_set_shader key) (c, w) = Some (snd (Canvas_set_shader key c), w)"
| "exec e (Op_change_image path_image) (c, w) = Some (Canvas_change_image path_image c w)"
| "exec e (Op_save_image path_image) (c, w) = Some (c, Canvas_save_image path_image c w)"
| "exec e Op_to_grayscale (c, w) = Some (snd (Canvas_to_grayscale e c w))"
| "exec e Op_blur (c, w) = Some (Canvas_blur e c w)"
| "exec e Op_zoom_in (c, w) = Some (Canvas_zoom_in c, w)"
| "exec e Op_zoom_out (c, w) = Some (Canvas_zoom_out c, w)"
| "exec e (Op_draw_circle position_mouse_img) (c, w) =
     Some (Canvas_draw_circle e position_mouse_img c w)"

text \<open>The active program pointer refers to an entry, and "monochrome" has one.\<close>

definition canvas_inv :: "canvas \<Rightarrow> bool" where
  "canvas_inv c \<longleftrightarrow>
     m_program c \<in> dom (m_programs c) \<and> ''monochrome'' \<in> dom (m_programs c)"

fun run :: "env \<Rightarrow> canvas_op list \<Rightarrow> canvas \<times> world \<Rightarrow> (canvas \<times> world) option" where
  "run e [] s = Some s"
| "run e (x # xs) s = (case exec e x s of None \<Rightarrow> None | Some s' \<Rightarrow> run e xs s')"

section \<open>Dialog\<close>

text \<open>
  The members of a \<open>Dialog\<close>, with what it drives outside itself: whether \<open>m_window\<close>
  has been asked to close, and whether the file dialog "ChooseFileKey" is open.
\<close>

record dialog =
  window_closed :: bool
  Dialog_m_image :: image
  Dialog_m_texture :: texture2d
  Dialog_m_program :: program
  file_dialog_opened :: bool

text \<open>The constructor: one program, checked in the body.\<close>

definition Dialog_new :: "env \<Rightarrow> world \<Rightarrow> (exn + dialog) \<times> world" where
  "Dialog_new e w =
     (let (img, w1) = Image_load ''./assets/images/grass_logo.png'' w;
          (tex, w2) = Texture2D_new img w1;
          p = compile e ''assets/shaders/basic.vert'' ''assets/shaders/basic.frag''
      in if has_failed p then (Inl ShaderException, w2)
         else (Inr \<lparr>window_closed = False, Dialog_m_image = img, Dialog_m_texture = tex,
                    Dialog_m_program = p, file_dialog_opened = False\<rparr>, w2))"











section \<open>Toolbar\<close>






section \<open>Concrete instances\<close>

text \<open>
  A small file system, a viewport of 1280 by 720, and environments whose filters copy
  the picture into a buffer of their own and leave the buffer they were given alone.
\<close>

definition float_1280 :: float where
  "float_1280 = \<lparr>sign = False, expo = 137, frac = 2097152\<rparr>"

definition float_720 :: float where
  "float_720 = \<lparr>sign = False, expo = 136, frac = 3407872\<rparr>"

definition nature_png :: raster where
  "nature_png = \<lparr>raster_width = 2, raster_height = 2, raster_channels = 3,
                  raster_pixels = [10, 20, 30, 40, 50, 60, 70, 80, 90, 100, 110, 120]\<rparr>"

definition grass_logo_png :: raster where
  "grass_logo_png = \<lparr>raster_width = 2, raster_height = 2, raster_channels = 1,
                      raster_pixels = [7, 8, 9, 6]\<rparr>"

definition no_flags :: ui_flags where
  "no_flags = \<lparr>Toolbar_open_image = False, Toolbar_save_image = False, Toolbar_quit_app = False,
     Toolbar_zoom_in = False, Toolbar_zoom_out = False, Toolbar_draw_circle = False,
     Toolbar_draw_line = False, Toolbar_hover_mode = HoverMode_NONE, Menu_draw_circle = False,
     Menu_draw_line = False, Mouse_click_mode = ClickMode_NONE, Mouse_hover_mode = HoverMode_NONE\<rparr>"

definition start_world :: world where
  "start_world = \<lparr>heap = Map.empty, next_addr = 0,
     files = [''./assets/images/nature.png'' \<mapsto> nature_png,
              ''./assets/images/grass_logo.png'' \<mapsto> grass_logo_png],
     next_texture = 1, gl_program = None, gl_uniforms = Map.empty, gl_texture = None,
     gl_draws = [],
     DisplaySize = (float_1280, float_720), draw_list = [], callback_data = (0, 0),
     ui = no_flags\<rparr>"

fun first_channel_pixels :: "nat \<Rightarrow> byte list \<Rightarrow> byte list" where
  "first_channel_pixels n [] = []"
| "first_channel_pixels n (x # xs) = x # first_channel_pixels n (drop (n - 1) xs)"

definition first_channel :: "raster \<Rightarrow> raster" where
  "first_channel r =
     r\<lparr>raster_channels := 1,
       raster_pixels := first_channel_pixels (raster_channels r) (raster_pixels r)\<rparr>"

definition filter_copy :: "(raster \<Rightarrow> raster) \<Rightarrow> image \<Rightarrow> world \<Rightarrow> image \<times> world" where
  "filter_copy f img w =
     (case raster_of w img of None \<Rightarrow> (null_image, w) | Some r \<Rightarrow> Image_alloc (f r) w)"

definition shader_ids :: "string \<Rightarrow> gluint" where
  "shader_ids frag =
     (if frag = ''assets/shaders/color.frag'' then 1
      else if frag = ''assets/shaders/grayscale.frag'' then 2
      else if frag = ''assets/shaders/monochrome.frag'' then 3 else 4)"

definition good_env :: env where
  "good_env = \<lparr>compile = (\<lambda>vert frag. \<lparr>program_id = shader_ids frag, vertex_failed = False,
                                         fragment_failed = False\<rparr>),
     ImageUtils_to_grayscale = filter_copy first_channel,
     ImageUtils_blur = filter_copy (\<lambda>r. r),
     ImageUtils_to_gray = filter_copy first_channel,
     ImageVector_draw_circle = (\<lambda>position r. r)\<rparr>"

definition bad_grayscale_env :: env where
  "bad_grayscale_env = good_env\<lparr>compile := (\<lambda>vert frag.
      \<lparr>program_id = shader_ids frag, vertex_failed = False,
       fragment_failed = (frag = ''assets/shaders/grayscale.frag'')\<rparr>)\<rparr>"

definition nature_image :: image where
  "nature_image = \<lparr>data = Some 0, width = 2, height = 2, n_channels = 3\<rparr>"

definition nature_texture :: texture2d where
  "nature_texture = \<lparr>texture_id = 1, texture_width = 2, texture_height = 2,
                      texture_pixels = [10, 20, 30, 40, 50, 60, 70, 80, 90, 100, 110, 120]\<rparr>"

definition color_canvas :: canvas where
  "color_canvas = \<lparr>m_image = nature_image, m_texture = nature_texture,
     m_programs = [''color'' \<mapsto> compile good_env ''assets/shaders/basic.vert'' ''assets/shaders/color.frag'',
                   ''grayscale'' \<mapsto> compile good_env ''assets/shaders/basic.vert'' ''assets/shaders/grayscale.frag'',
                   ''monochrome'' \<mapsto> compile good_env ''assets/shaders/basic.vert'' ''assets/shaders/monochrome.frag''],
     m_program = ''color'', m_zoom = float_one\<rparr>"

definition loaded_world :: world where
  "loaded_world = start_world\<lparr>heap := [0 \<mapsto> [10, 20, 30, 40, 50, 60, 70, 80, 90, 100, 110, 120]],
                               next_addr := 1,
                               next_texture := 2\<rparr>"


definition monochrome_canvas :: canvas where
  "monochrome_canvas = color_canvas\<lparr>m_texture := nature_texture\<lparr>texture_id := 2\<rparr>,
                                     m_program := ''monochrome''\<rparr>"

definition logo_image :: image where
  "logo_image = \<lparr>data = Some 0, width = 2, height = 2, n_channels = 1\<rparr>"

definition logo_dialog :: dialog where
  "logo_dialog = \<lparr>window_closed = False, Dialog_m_image = logo_image,
     Dialog_m_texture = \<lparr>texture_id = 1, texture_width = 2, texture_height = 2,
                          texture_pixels = [7, 8, 9, 6]\<rparr>,
     Dialog_m_program = \<lparr>program_id = 4, vertex_failed = False, fragment_failed = False\<rparr>,
     file_dialog_opened = False\<rparr>"

definition logo_world :: world where
  "logo_world = start_world\<lparr>heap := [0 \<mapsto> [7, 8, 9, 6]], next_addr := 1, next_texture := 2\<rparr>"





text \<open>The world right after the canvas above has called \<open>use_shader\<close>.\<close>

definition relay_world :: world where
  "relay_world = loaded_world\<lparr>draw_list := [Callback_draw_with_custom_shader],
                              callback_data := (1, 1)\<rparr>"

section \<open>Float arithmetic of the zoom\<close>

lemma valof_float_one: "valof float_one = 1"
  by (simp add: valof_def float_one_def)

lemma valof_viewport: "valof float_1280 = 1280" "valof float_720 = 720"
  by (simp_all add: valof_def float_1280_def float_720_def)

text \<open>Doubling is exact below the largest exponent.\<close>

lemma valof_mul_2:
  assumes "expo x < 254" "valid_float x"
  shows "valof (float_mul_2 x) = 2 * valof x"
proof (cases "expo x = 0")
  case True
  show ?thesis
  proof (cases "2 * frac x < 2 ^ 23")
    case small: True
    with True show ?thesis by (simp add: valof_def float_mul_2_def)
  next
    case False
    then have "real (2 * frac x - 2 ^ 23) = 2 * real (frac x) - 2 ^ 23"
      by simp
    with True False show ?thesis by (simp add: valof_def float_mul_2_def)
  qed
next
  case False
  then obtain k where k: "expo x = Suc k" by (cases "expo x") auto
  with assms show ?thesis by (simp add: valof_def float_mul_2_def)
qed

text \<open>Halving is exact while the result is a normal number.\<close>

lemma valof_div_2:
  assumes "2 \<le> expo x" "expo x < 255"
  shows "valof (float_div_2 x) = valof x / 2"
proof -
  define k where "k = expo x - 2"
  have "expo x = Suc (Suc k)"
    using assms by (simp add: k_def)
  with assms show ?thesis by (simp add: valof_def float_div_2_def)
qed

lemma round_half_even_double: "round_half_even (2 * m) = m"
  by (simp add: round_half_even_def)

lemma float_div_2_mul_2:
  assumes v: "valid_float x" and f: "is_finite (float_mul_2 x)"
  shows "float_div_2 (float_mul_2 x) = x"
proof -
  have fr: "frac x < 2 ^ 23" using v by (simp add: valid_float_def)
  consider (special) "expo x \<ge> 255" | (sub) "expo x = 0" "2 * frac x < 2 ^ 23"
    | (up) "expo x = 0" "\<not> 2 * frac x < 2 ^ 23" | (top) "expo x = 254"
    | (normal) "0 < expo x" "expo x < 254"
    by linarith
  then show ?thesis
  proof cases
    case special
    then have "expo (float_mul_2 x) = expo x"
      by (simp add: float_mul_2_def quiet_def)
    with special f show ?thesis by (simp add: is_finite_def)
  next
    case sub
    then have "float_mul_2 x = x\<lparr>frac := 2 * frac x\<rparr>"
      by (simp add: float_mul_2_def)
    with sub fr show ?thesis
      by (simp add: float_div_2_def round_half_even_double)
  next
    case up
    then have m: "float_mul_2 x = x\<lparr>expo := 1, frac := 2 * frac x - 2 ^ 23\<rparr>"
      by (simp add: float_mul_2_def)
    have "(2::nat) ^ 23 + (2 * frac x - 2 ^ 23) = 2 * frac x"
      using up(2) by linarith
    with m up(1) fr show ?thesis
      by (simp add: float_div_2_def round_half_even_double)
  next
    case top
    then have "expo (float_mul_2 x) = 255"
      by (simp add: float_mul_2_def)
    with f show ?thesis by (simp add: is_finite_def)
  next
    case normal
    then have "float_mul_2 x = x\<lparr>expo := expo x + 1\<rparr>"
      by (simp add: float_mul_2_def)
    with normal show ?thesis
      by (simp add: float_div_2_def)
  qed
qed

lemma valid_float_mul_2: "valid_float x \<Longrightarrow> valid_float (float_mul_2 x)"
  by (auto simp: valid_float_def float_mul_2_def quiet_def)

lemma not_finite_mul_2: "\<not> is_finite x \<Longrightarrow> \<not> is_finite (float_mul_2 x)"
  by (simp add: is_finite_def float_mul_2_def quiet_def)

lemma valid_float_mul_2_funpow: "valid_float x \<Longrightarrow> valid_float ((float_mul_2 ^^ n) x)"
  by (induction n) (simp_all add: valid_float_mul_2)

lemma float_div_2_mul_2_funpow:
  "valid_float x \<Longrightarrow> is_finite ((float_mul_2 ^^ n) x) \<Longrightarrow>
   (float_div_2 ^^ n) ((float_mul_2 ^^ n) x) = x"
proof (induction n)
  case 0
  then show ?case by simp
next
  case (Suc n)
  have fin: "is_finite ((float_mul_2 ^^ n) x)"
    using Suc.prems(2) not_finite_mul_2 [of "(float_mul_2 ^^ n) x"] by auto
  have "(float_div_2 ^^ Suc n) ((float_mul_2 ^^ Suc n) x) =
        (float_div_2 ^^ n) (float_div_2 (float_mul_2 ((float_mul_2 ^^ n) x)))"
    by (simp add: funpow_swap1)
  also have "float_div_2 (float_mul_2 ((float_mul_2 ^^ n) x)) = (float_mul_2 ^^ n) x"
    using Suc.prems by (intro float_div_2_mul_2 valid_float_mul_2_funpow) simp_all
  finally show ?case using Suc.IH [OF Suc.prems(1) fin] by simp
qed

lemma mul_2_funpow_normal:
  "0 < expo x \<Longrightarrow> expo x + n \<le> 254 \<Longrightarrow> (float_mul_2 ^^ n) x = x\<lparr>expo := expo x + n\<rparr>"
  by (induction n) (simp_all add: float_mul_2_def)

lemma mul_2_funpow_overflow:
  assumes "0 < expo x" and "expo x + n = 254"
  shows "(float_mul_2 ^^ Suc n) x = x\<lparr>expo := 255, frac := 0\<rparr>"
proof -
  have "(float_mul_2 ^^ n) x = x\<lparr>expo := 254\<rparr>"
    using assms mul_2_funpow_normal [of x n] by simp
  then show ?thesis by (simp add: float_mul_2_def)
qed

lemma mul_2_128_float_one: "(float_mul_2 ^^ 128) float_one = float_infinity"
  using mul_2_funpow_overflow [of float_one 127]
  by (simp add: float_one_def float_infinity_def)

lemma div_2_funpow_infinity: "(float_div_2 ^^ n) float_infinity = float_infinity"
  by (induction n) (simp_all add: float_div_2_def float_infinity_def quiet_def)

lemma zoom_in_funpow: "(Canvas_zoom_in ^^ n) c = c\<lparr>m_zoom := (float_mul_2 ^^ n) (m_zoom c)\<rparr>"
  by (induction n) (simp_all add: Canvas_zoom_in_def)

lemma zoom_out_funpow: "(Canvas_zoom_out ^^ n) c = c\<lparr>m_zoom := (float_div_2 ^^ n) (m_zoom c)\<rparr>"
  by (induction n) (simp_all add: Canvas_zoom_out_def)

lemma m_zoom_zoom_in_funpow:
  "m_zoom ((Canvas_zoom_in ^^ n) c) = (float_mul_2 ^^ n) (m_zoom c)"
  by (simp add: zoom_in_funpow)

lemma m_zoom_zoom_out_funpow:
  "m_zoom ((Canvas_zoom_out ^^ n) c) = (float_div_2 ^^ n) (m_zoom c)"
  by (simp add: zoom_out_funpow)

section \<open>The constructed canvas\<close>

lemma Canvas_new_good: "Canvas_new good_env start_world = (Inr color_canvas, loaded_world)"
  by (simp add: Canvas_new_def Image_load_def Image_alloc_def Texture2D_new_def
      Texture2D_set_image_def pixels_of_def start_world_def nature_png_def good_env_def
      color_canvas_def loaded_world_def nature_image_def nature_texture_def
      deref_m_program_def has_failed_def Let_def)

section \<open>Selecting a shader\<close>

text \<open>
  Claim C1. For a key that is not in the program collection, \<open>set_shader\<close> throws
  \<open>std::out_of_range\<close>; it selects no other program, and the canvas, the selected
  program included, is as it was before the call.
\<close>

theorem set_shader_unknown_key:
  assumes "key \<notin> dom (m_programs c)"
  shows "Canvas_set_shader key c = (Some Out_of_range, c)"
  using assms by (simp add: Canvas_set_shader_def domIff)

theorem set_shader_unknown_key_witness:
  "''sepia'' \<notin> dom (m_programs color_canvas) \<and>
   Canvas_set_shader ''sepia'' color_canvas = (Some Out_of_range, color_canvas)"
proof -
  have h: "''sepia'' \<notin> dom (m_programs color_canvas)"
    by (simp add: color_canvas_def)
  show ?thesis using h set_shader_unknown_key [OF h] by simp
qed

section \<open>Zoom\<close>

text \<open>
  Claim C6, as the claim states it, fails: from the zoom factor 1.0 of a new canvas, 128
  calls of \<open>zoom_in\<close> reach infinity, and 128 calls of \<open>zoom_out\<close> leave it there.
\<close>

theorem zoom_128_counterexample:
  "m_zoom ((Canvas_zoom_out ^^ 128) ((Canvas_zoom_in ^^ 128) color_canvas)) = float_infinity \<and>
   m_zoom color_canvas = float_one \<and> float_infinity \<noteq> float_one"
proof -
  have one: "m_zoom color_canvas = float_one"
    by (simp add: color_canvas_def)
  have "m_zoom ((Canvas_zoom_out ^^ 128) ((Canvas_zoom_in ^^ 128) color_canvas)) =
        (float_div_2 ^^ 128) ((float_mul_2 ^^ 128) float_one)"
    by (simp only: m_zoom_zoom_in_funpow m_zoom_zoom_out_funpow one)
  also have "\<dots> = float_infinity"
    by (simp only: mul_2_128_float_one div_2_funpow_infinity)
  finally show ?thesis
    using one by (simp add: float_infinity_def float_one_def)
qed

text \<open>
  Claim C6, amended. When the zoom factor is still finite after \<open>n\<close> calls of \<open>zoom_in\<close>,
  \<open>n\<close> calls of \<open>zoom_out\<close> give back the canvas as it was, with the same zoom factor bit
  for bit.
\<close>

theorem zoom_in_then_out_restores:
  assumes "valid_float (m_zoom c)" and "is_finite (m_zoom ((Canvas_zoom_in ^^ n) c))"
  shows "(Canvas_zoom_out ^^ n) ((Canvas_zoom_in ^^ n) c) = c"
  using assms float_div_2_mul_2_funpow [of "m_zoom c" n]
  by (simp add: zoom_in_funpow zoom_out_funpow)

theorem zoom_in_then_out_restores_witness:
  "valid_float (m_zoom color_canvas) \<and>
   is_finite (m_zoom ((Canvas_zoom_in ^^ 3) color_canvas)) \<and>
   (Canvas_zoom_out ^^ 3) ((Canvas_zoom_in ^^ 3) color_canvas) = color_canvas"
proof -
  have v: "valid_float (m_zoom color_canvas)"
    by (simp add: color_canvas_def float_one_def valid_float_def)
  have f: "is_finite (m_zoom ((Canvas_zoom_in ^^ 3) color_canvas))"
    by (simp add: numeral_3_eq_3 Canvas_zoom_in_def color_canvas_def float_one_def
        float_mul_2_def is_finite_def)
  show ?thesis using v f zoom_in_then_out_restores [OF v f] by simp
qed

section \<open>The active shader program\<close>

lemma change_image_programs:
  "m_programs (fst (Canvas_change_image path c w)) = m_programs c"
  "m_program (fst (Canvas_change_image path c w)) = m_program c"
  by (simp_all add: Canvas_change_image_def Let_def split: prod.split)

lemma blur_programs:
  "m_programs (fst (Canvas_blur e c w)) = m_programs c"
  "m_program (fst (Canvas_blur e c w)) = m_program c"
  by (simp_all add: Canvas_blur_def Let_def split: prod.split)

lemma draw_circle_programs:
  "m_programs (fst (Canvas_draw_circle e pos c w)) = m_programs c"
  "m_program (fst (Canvas_draw_circle e pos c w)) = m_program c"
  by (simp_all add: Canvas_draw_circle_def Let_def split: prod.split)

lemma zoom_programs:
  "m_programs (Canvas_zoom_in c) = m_programs c"
  "m_program (Canvas_zoom_in c) = m_program c"
  "m_programs (Canvas_zoom_out c) = m_programs c"
  "m_program (Canvas_zoom_out c) = m_program c"
  by (simp_all add: Canvas_zoom_in_def Canvas_zoom_out_def)

lemma set_shader_programs:
  "m_programs (snd (Canvas_set_shader key c)) = m_programs c"
  "m_program (snd (Canvas_set_shader key c)) = (if key \<in> dom (m_programs c) then key else m_program c)"
  by (auto simp: Canvas_set_shader_def split: option.split)

lemma to_grayscale_programs:
  "m_programs (fst (snd (Canvas_to_grayscale e c w))) = m_programs c"
  "m_program (fst (snd (Canvas_to_grayscale e c w))) =
     (if ''monochrome'' \<in> dom (m_programs c) then ''monochrome'' else m_program c)"
  by (auto simp: Canvas_to_grayscale_def Let_def split: prod.split option.split)

lemma to_grayscale_throws:
  "fst (Canvas_to_grayscale e c w) =
     (if ''monochrome'' \<in> dom (m_programs c) then None else Some Out_of_range)"
  by (auto simp: Canvas_to_grayscale_def Let_def split: prod.split option.split)

lemma render_defined:
  "m_program c \<in> dom (m_programs c) \<Longrightarrow> \<exists>w'. Canvas_render y k h c w = Some w'"
  by (auto simp: Canvas_render_def Canvas_render_image_def Canvas_use_shader_def
      deref_m_program_def Let_def split: option.split)

lemma exec_inv:
  assumes "canvas_inv c"
  shows "\<exists>c' w'. exec e x (c, w) = Some (c', w') \<and> canvas_inv c' \<and> m_programs c' = m_programs c"
proof (cases x)
  case (Op_render y k h)
  with assms render_defined [of c y k h w] show ?thesis
    by (auto simp: canvas_inv_def)
next
  case (Op_set_shader key)
  with assms show ?thesis
    by (cases "Canvas_set_shader key c")
       (use set_shader_programs [of key c] in \<open>auto simp: canvas_inv_def\<close>)
next
  case (Op_change_image path)
  with assms show ?thesis
    by (cases "Canvas_change_image path c w")
       (use change_image_programs [of path c w] in \<open>auto simp: canvas_inv_def\<close>)
next
  case (Op_save_image path)
  with assms show ?thesis by simp
next
  case Op_to_grayscale
  with assms show ?thesis
    by (cases "snd (Canvas_to_grayscale e c w)")
       (use to_grayscale_programs [of e c w] in \<open>auto simp: canvas_inv_def\<close>)
next
  case Op_blur
  with assms show ?thesis
    by (cases "Canvas_blur e c w")
       (use blur_programs [of e c w] in \<open>auto simp: canvas_inv_def\<close>)
next
  case Op_zoom_in
  with assms show ?thesis by (simp add: canvas_inv_def zoom_programs)
next
  case Op_zoom_out
  with assms show ?thesis by (simp add: canvas_inv_def zoom_programs)
next
  case (Op_draw_circle pos)
  with assms show ?thesis
    by (cases "Canvas_draw_circle e pos c w")
       (use draw_circle_programs [of e pos c w] in \<open>auto simp: canvas_inv_def\<close>)
qed

lemma run_inv:
  "canvas_inv c \<Longrightarrow>
   \<exists>c' w'. run e xs (c, w) = Some (c', w') \<and> canvas_inv c' \<and> m_programs c' = m_programs c"
proof (induction xs arbitrary: c w)
  case Nil
  then show ?case by simp
next
  case (Cons x xs)
  from exec_inv [OF Cons.prems, of e x w] obtain c1 w1 where
    s: "exec e x (c, w) = Some (c1, w1)" "canvas_inv c1" "m_programs c1 = m_programs c"
    by blast
  from Cons.IH [OF s(2), of w1] s show ?case by auto
qed

lemma Canvas_new_inv:
  assumes "Canvas_new e w = (Inr c, w0)"
  shows "canvas_inv c" "dom (m_programs c) = {''color'', ''grayscale'', ''monochrome''}"
  using assms
  by (auto simp: Canvas_new_def Let_def canvas_inv_def deref_m_program_def
      split: prod.splits if_splits)

text \<open>
  Claim C9. After the constructor has returned a canvas, every sequence of member calls
  runs without undefined behaviour and ends with the active program pointer on an entry
  of the program collection, which is still the collection the constructor built.
\<close>

theorem active_program_always_live:
  assumes "Canvas_new e w = (Inr c, w0)"
  shows "\<exists>c' w' p. run e ops (c, w0) = Some (c', w') \<and> deref_m_program c' = Some p \<and>
           m_programs c' = m_programs c"
proof -
  from run_inv [OF Canvas_new_inv(1) [OF assms], of e ops w0] obtain c' w' where
    r: "run e ops (c, w0) = Some (c', w')" "canvas_inv c'" "m_programs c' = m_programs c"
    by blast
  from r(2) obtain p where "deref_m_program c' = Some p"
    by (auto simp: canvas_inv_def deref_m_program_def)
  with r show ?thesis by blast
qed

theorem active_program_always_live_witness:
  "Canvas_new good_env start_world = (Inr color_canvas, loaded_world) \<and>
   (\<exists>c' w' p. run good_env [Op_set_shader ''sepia'', Op_to_grayscale, Op_zoom_in]
                 (color_canvas, loaded_world) = Some (c', w') \<and>
               deref_m_program c' = Some p \<and> m_programs c' = m_programs color_canvas)"
  using Canvas_new_good
    active_program_always_live [OF Canvas_new_good,
      of "[Op_set_shader ''sepia'', Op_to_grayscale, Op_zoom_in]"]
  by blast

text \<open>
  Claim C10. On a canvas reached from the constructor, \<open>to_grayscale\<close> does not throw,
  assigns the filter's result to the image, uploads that image to the texture (same
  identifier, the new size and pixels), makes "monochrome" the active program and leaves
  the program collection and the zoom as they were; outside the canvas it changes what
  the filter changed and nothing else. \<open>blur\<close>, \<open>change_image\<close> and \<open>draw_circle\<close>
  leave the active program as it was.
\<close>

theorem to_grayscale_selects_monochrome:
  assumes "Canvas_new e w = (Inr c0, w0)" and "run e ops (c0, w0) = Some (c, w1)"
  shows "fst (Canvas_to_grayscale e c w1) = None \<and>
         m_program (fst (snd (Canvas_to_grayscale e c w1))) = ''monochrome'' \<and>
         deref_m_program (fst (snd (Canvas_to_grayscale e c w1))) = m_programs c ''monochrome'' \<and>
         m_programs c ''monochrome'' \<noteq> None \<and>
         m_programs (fst (snd (Canvas_to_grayscale e c w1))) = m_programs c \<and>
         m_image (fst (snd (Canvas_to_grayscale e c w1))) =
           fst (ImageUtils_to_grayscale e (m_image c) w1) \<and>
         m_texture (fst (snd (Canvas_to_grayscale e c w1))) =
           Texture2D_set_image (fst (ImageUtils_to_grayscale e (m_image c) w1))
             (snd (ImageUtils_to_grayscale e (m_image c) w1)) (m_texture c) \<and>
         m_zoom (fst (snd (Canvas_to_grayscale e c w1))) = m_zoom c \<and>
         snd (snd (Canvas_to_grayscale e c w1)) =
           snd (ImageUtils_to_grayscale e (m_image c) w1) \<and>
         m_program (fst (Canvas_blur e c w1)) = m_program c \<and>
         m_program (fst (Canvas_change_image path_image c w1)) = m_program c \<and>
         m_program (fst (Canvas_draw_circle e position_mouse_img c w1)) = m_program c"
proof -
  from run_inv [OF Canvas_new_inv(1) [OF assms(1)], of e ops w0] assms(2)
  have inv: "canvas_inv c" by auto
  then have mono: "''monochrome'' \<in> dom (m_programs c)"
    by (simp add: canvas_inv_def)
  have img: "m_image (fst (snd (Canvas_to_grayscale e c w1))) =
           fst (ImageUtils_to_grayscale e (m_image c) w1)"
    by (auto simp: Canvas_to_grayscale_def Let_def split: prod.split option.split)
  have tex: "m_texture (fst (snd (Canvas_to_grayscale e c w1))) =
           Texture2D_set_image (fst (ImageUtils_to_grayscale e (m_image c) w1))
             (snd (ImageUtils_to_grayscale e (m_image c) w1)) (m_texture c)"
    by (auto simp: Canvas_to_grayscale_def Let_def split: prod.split option.split)
  have zoom: "m_zoom (fst (snd (Canvas_to_grayscale e c w1))) = m_zoom c"
    by (auto simp: Canvas_to_grayscale_def Let_def split: prod.split option.split)
  have wld: "snd (snd (Canvas_to_grayscale e c w1)) =
           snd (ImageUtils_to_grayscale e (m_image c) w1)"
    by (auto simp: Canvas_to_grayscale_def Let_def split: prod.split option.split)
  from mono img tex zoom wld show ?thesis
    by (auto simp: to_grayscale_programs to_grayscale_throws blur_programs
        change_image_programs draw_circle_programs deref_m_program_def)
qed

lemma to_grayscale_good:
  "ImageUtils_to_grayscale good_env (m_image color_canvas) loaded_world =
     (\<lparr>data = Some 1, width = 2, height = 2, n_channels = 1\<rparr>,
      loaded_world\<lparr>heap := (heap loaded_world)(1 \<mapsto> [10, 40, 70, 100]), next_addr := 2\<rparr>)"
  by (simp add: good_env_def filter_copy_def raster_of_def pixels_of_def Image_alloc_def
      color_canvas_def nature_image_def loaded_world_def start_world_def first_channel_def)

theorem to_grayscale_selects_monochrome_witness:
  "Canvas_new good_env start_world = (Inr color_canvas, loaded_world) \<and>
   run good_env [] (color_canvas, loaded_world) = Some (color_canvas, loaded_world) \<and>
   fst (Canvas_to_grayscale good_env color_canvas loaded_world) = None \<and>
   m_program (fst (snd (Canvas_to_grayscale good_env color_canvas loaded_world))) = ''monochrome'' \<and>
   m_programs (fst (snd (Canvas_to_grayscale good_env color_canvas loaded_world))) =
     m_programs color_canvas \<and>
   m_image (fst (snd (Canvas_to_grayscale good_env color_canvas loaded_world))) =
     \<lparr>data = Some 1, width = 2, height = 2, n_channels = 1\<rparr> \<and>
   m_texture (fst (snd (Canvas_to_grayscale good_env color_canvas loaded_world))) =
     \<lparr>texture_id = 1, texture_width = 2, texture_height = 2,
      texture_pixels = [10, 40, 70, 100]\<rparr> \<and>
   m_program (fst (Canvas_blur good_env color_canvas loaded_world)) = ''color''"
proof -
  have r: "run good_env [] (color_canvas, loaded_world) = Some (color_canvas, loaded_world)"
    by simp
  have "m_program color_canvas = ''color''"
    by (simp add: color_canvas_def)
  moreover have "Texture2D_set_image \<lparr>data = Some 1, width = 2, height = 2, n_channels = 1\<rparr>
       (loaded_world\<lparr>heap := (heap loaded_world)(1 \<mapsto> [10, 40, 70, 100]), next_addr := 2\<rparr>)
       (m_texture color_canvas) =
     \<lparr>texture_id = 1, texture_width = 2, texture_height = 2,
      texture_pixels = [10, 40, 70, 100]\<rparr>"
    by (simp add: Texture2D_set_image_def pixels_of_def color_canvas_def nature_texture_def)
  ultimately show ?thesis
    using Canvas_new_good r to_grayscale_selects_monochrome [OF Canvas_new_good r]
    by (simp add: to_grayscale_good)
qed

section \<open>The render-callback data relay, verified\<close>

lemma draw_with_custom_shader_eq:
  "Canvas_draw_with_custom_shader w =
     w\<lparr>gl_program := Some (fst (callback_data w)),
       gl_uniforms := (gl_uniforms w)
         ((fst (callback_data w), ''transformation'') \<mapsto>
            Uniform_mat4 (Mat_mul (Mat_mul
              (Ortho float_zero (fst (DisplaySize w)) (snd (DisplaySize w)) float_zero)
              Identity) Identity),
          (fst (callback_data w), ''texture2d'') \<mapsto> Uniform_texture (snd (callback_data w)))\<rparr>"
  by (simp add: Canvas_draw_with_custom_shader_def Program_use_def Program_of_id_def Let_def)

lemma use_shader_eq:
  "deref_m_program c = Some p \<Longrightarrow>
   Canvas_use_shader c w =
     Some (w\<lparr>draw_list := draw_list w @ [Callback_draw_with_custom_shader],
             callback_data := (program_id p, texture_id (m_texture c))\<rparr>)"
  by (simp add: Canvas_use_shader_def AddCallback_def add_cmd_def)

lemma use_shader_color_canvas:
  "Canvas_use_shader color_canvas loaded_world = Some relay_world"
  by (simp add: Canvas_use_shader_def deref_m_program_def AddCallback_def add_cmd_def
      color_canvas_def good_env_def shader_ids_def nature_texture_def relay_world_def
      loaded_world_def start_world_def)

text \<open>
  Claim C4, as the claim states it, fails in its last part: the callback issues no draw.
  Run right after \<open>use_shader\<close>, it makes program 1 the one in use and sets its
  uniforms, and the draws issued so far are what they were, none.
\<close>

theorem callback_issues_no_draw_counterexample:
  "Canvas_use_shader color_canvas loaded_world = Some relay_world \<and>
   gl_draws relay_world = [] \<and>
   gl_draws (Canvas_draw_with_custom_shader relay_world) = [] \<and>
   gl_program (Canvas_draw_with_custom_shader relay_world) = Some 1"
proof -
  have a: "Canvas_use_shader color_canvas loaded_world = Some relay_world"
    by (rule use_shader_color_canvas)
  have b: "gl_draws relay_world = []"
    by (simp add: relay_world_def loaded_world_def start_world_def)
  have c: "gl_draws (Canvas_draw_with_custom_shader relay_world) = []"
    by (simp add: draw_with_custom_shader_eq b)
  have d: "gl_program (Canvas_draw_with_custom_shader relay_world) = Some 1"
    by (simp add: draw_with_custom_shader_eq relay_world_def)
  from a b c d show ?thesis by (intro conjI)
qed

text \<open>
  Claim C4, amended. With the active program pointer on an entry \<open>p\<close>, \<open>use_shader\<close>
  leaves the identifiers of \<open>p\<close> and of the canvas's texture in the static slot and the
  callback as the last command of the draw list. Run in any world whose slot still holds
  them, the callback changes nothing but the OpenGL program in use, which becomes the
  handle rebuilt from the first identifier, and that program's two uniforms: the
  orthographic matrix of the viewport size of that world, and the texture handle rebuilt
  from the second identifier. The callback issues no draw itself; when the frame of
  \<open>render_image\<close> is rendered, the image command that follows the callback is drawn
  under that program.
\<close>

theorem callback_relay:
  assumes "deref_m_program c = Some p"
  shows "\<exists>w1. Canvas_use_shader c w = Some w1 \<and>
           callback_data w1 = (program_id p, texture_id (m_texture c)) \<and>
           draw_list w1 = draw_list w @ [Callback_draw_with_custom_shader] \<and>
           (\<forall>w2. callback_data w2 = callback_data w1 \<longrightarrow>
              Canvas_draw_with_custom_shader w2 =
                w2\<lparr>gl_program := Some (program_id p),
                   gl_uniforms := (gl_uniforms w2)
                     ((program_id p, ''transformation'') \<mapsto>
                        Uniform_mat4 (Mat_mul (Mat_mul
                          (Ortho float_zero (fst (DisplaySize w2)) (snd (DisplaySize w2)) float_zero)
                          Identity) Identity),
                      (program_id p, ''texture2d'') \<mapsto>
                        Uniform_texture (texture_id (m_texture c)))\<rparr> \<and>
              gl_draws (Canvas_draw_with_custom_shader w2) = gl_draws w2) \<and>
           (\<exists>w3. Canvas_render_image y_offset clicked hovered c (w\<lparr>draw_list := []\<rparr>) = Some w3 \<and>
              gl_draws (RenderDrawData w3) =
                gl_draws w @ [(Some (program_id p), texture_id (m_texture c))])"
proof -
  let ?w1 = "w\<lparr>draw_list := draw_list w @ [Callback_draw_with_custom_shader],
              callback_data := (program_id p, texture_id (m_texture c))\<rparr>"
  have u: "Canvas_use_shader c w = Some ?w1"
    by (rule use_shader_eq [OF assms])
  have cb: "\<forall>w2. callback_data w2 = callback_data ?w1 \<longrightarrow>
              Canvas_draw_with_custom_shader w2 =
                w2\<lparr>gl_program := Some (program_id p),
                   gl_uniforms := (gl_uniforms w2)
                     ((program_id p, ''transformation'') \<mapsto>
                        Uniform_mat4 (Mat_mul (Mat_mul
                          (Ortho float_zero (fst (DisplaySize w2)) (snd (DisplaySize w2)) float_zero)
                          Identity) Identity),
                      (program_id p, ''texture2d'') \<mapsto>
                        Uniform_texture (texture_id (m_texture c)))\<rparr> \<and>
              gl_draws (Canvas_draw_with_custom_shader w2) = gl_draws w2"
    by (simp add: draw_with_custom_shader_eq)
  have fr: "\<exists>w3. Canvas_render_image y_offset clicked hovered c (w\<lparr>draw_list := []\<rparr>) = Some w3 \<and>
              gl_draws (RenderDrawData w3) =
                gl_draws w @ [(Some (program_id p), texture_id (m_texture c))]"
    by (simp add: Canvas_render_image_def use_shader_eq [OF assms] Canvas_unuse_shader_def
        AddCallback_def add_cmd_def RenderDrawData_def draw_with_custom_shader_eq Let_def)
  from u cb fr show ?thesis by simp
qed

lemma deref_color_canvas:
  "deref_m_program color_canvas =
     Some \<lparr>program_id = 1, vertex_failed = False, fragment_failed = False\<rparr>"
  by (simp add: deref_m_program_def color_canvas_def good_env_def shader_ids_def)

lemma deref_monochrome_canvas:
  "deref_m_program monochrome_canvas =
     Some \<lparr>program_id = 3, vertex_failed = False, fragment_failed = False\<rparr>"
  by (simp add: deref_m_program_def monochrome_canvas_def color_canvas_def good_env_def
      shader_ids_def)

theorem callback_relay_witness:
  "deref_m_program color_canvas = Some \<lparr>program_id = 1, vertex_failed = False, fragment_failed = False\<rparr> \<and>
   (\<exists>w1. Canvas_use_shader color_canvas loaded_world = Some w1 \<and>
           callback_data w1 = (program_id \<lparr>program_id = 1, vertex_failed = False, fragment_failed = False\<rparr>, texture_id (m_texture color_canvas)) \<and>
           draw_list w1 = draw_list loaded_world @ [Callback_draw_with_custom_shader] \<and>
           (\<forall>w2. callback_data w2 = callback_data w1 \<longrightarrow>
              Canvas_draw_with_custom_shader w2 =
                w2\<lparr>gl_program := Some (program_id \<lparr>program_id = 1, vertex_failed = False, fragment_failed = False\<rparr>),
                   gl_uniforms := (gl_uniforms w2)
                     ((program_id \<lparr>program_id = 1, vertex_failed = False, fragment_failed = False\<rparr>, ''transformation'') \<mapsto>
                        Uniform_mat4 (Mat_mul (Mat_mul
                          (Ortho float_zero (fst (DisplaySize w2)) (snd (DisplaySize w2)) float_zero)
                          Identity) Identity),
                      (program_id \<lparr>program_id = 1, vertex_failed = False, fragment_failed = False\<rparr>, ''texture2d'') \<mapsto>
                        Uniform_texture (texture_id (m_texture color_canvas)))\<rparr> \<and>
              gl_draws (Canvas_draw_with_custom_shader w2) = gl_draws w2) \<and>
           (\<exists>w3. Canvas_render_image float_zero True True color_canvas (loaded_world\<lparr>draw_list := []\<rparr>) = Some w3 \<and>
              gl_draws (RenderDrawData w3) =
                gl_draws loaded_world @ [(Some (program_id \<lparr>program_id = 1, vertex_failed = False, fragment_failed = False\<rparr>), texture_id (m_texture color_canvas))]))"
proof -
  note h = deref_color_canvas
  from h callback_relay [OF h, where w = loaded_world and y_offset = float_zero
      and clicked = True and hovered = True]
  show ?thesis by (rule conjI)
qed

lemma fold_inert:
  "\<forall>t\<in>set T. \<forall>v. run_draw_cmd t v = v \<Longrightarrow> fold run_draw_cmd T v = v"
  by (induction T arbitrary: v) simp_all

lemma render_image_shape:
  assumes "deref_m_program c = Some p"
  shows "\<exists>T w'. (\<forall>t\<in>set T. \<forall>v. run_draw_cmd t v = v) \<and>
           Canvas_render_image y_offset clicked hovered c w = Some w' \<and>
           draw_list w' = draw_list w @
             Callback_draw_with_custom_shader #
             Cmd_Image (texture_id (m_texture c)) (m_zoom c)
               (texture_width (m_texture c)) (texture_height (m_texture c)) # T @
             [Callback_ResetRenderState] \<and>
           callback_data w' = (program_id p, texture_id (m_texture c)) \<and>
           gl_draws w' = gl_draws w"
proof -
  note defs = Canvas_render_image_def use_shader_eq [OF assms] Canvas_unuse_shader_def
    AddCallback_def add_cmd_def Let_def
  consider (subset) "hovered" "Mouse_hover_mode (ui w) = IMAGE_SUBSET"
    | (pixel) "hovered" "Mouse_hover_mode (ui w) = PIXEL_VALUE"
    | (none) "\<not> hovered \<or> Mouse_hover_mode (ui w) = HoverMode_NONE"
    by (cases "Mouse_hover_mode (ui w)") auto
  then show ?thesis
  proof cases
    case subset
    then show ?thesis
      by (intro exI [of _ "[Cmd_tooltip_image y_offset (m_zoom c)]"]) (simp add: defs)
  next
    case pixel
    then show ?thesis
      by (intro exI [of _ "[Cmd_tooltip_pixel y_offset]"]) (simp add: defs)
  next
    case none
    then show ?thesis
      by (intro exI [of _ "[]"]) (auto simp: defs)
  qed
qed

lemma fold_segment:
  assumes "\<forall>t\<in>set T. \<forall>v. run_draw_cmd t v = v"
  shows "gl_draws (fold run_draw_cmd
           (Callback_draw_with_custom_shader # Cmd_Image tid z tw th # T @
            [Callback_ResetRenderState]) v) = gl_draws v @ [(Some (fst (callback_data v)), tid)]"
    and "callback_data (fold run_draw_cmd
           (Callback_draw_with_custom_shader # Cmd_Image tid z tw th # T @
            [Callback_ResetRenderState]) v) = callback_data v"
  using fold_inert [OF assms]
  by (simp_all add: draw_with_custom_shader_eq)

text \<open>
  Claim C5. The slot is one pair in the process-wide state. When a second canvas calls
  \<open>use_shader\<close> before the first callback has run, two callbacks are pending and the
  slot holds the identifiers of the second canvas only; when the frame is rendered, the
  image of the first canvas is drawn under the program of the second.
\<close>

theorem callback_slot_overwritten:
  assumes "deref_m_program c1 = Some p1" and "deref_m_program c2 = Some p2"
  shows "\<exists>w1 w2. Canvas_use_shader c1 w = Some w1 \<and>
           callback_data w1 = (program_id p1, texture_id (m_texture c1)) \<and>
           Canvas_use_shader c2 w1 = Some w2 \<and>
           callback_data w2 = (program_id p2, texture_id (m_texture c2)) \<and>
           draw_list w2 = draw_list w @
             [Callback_draw_with_custom_shader, Callback_draw_with_custom_shader] \<and>
           (\<exists>w3 w4.
              Canvas_render_image y1 clicked1 hovered1 c1 (w\<lparr>draw_list := []\<rparr>) = Some w3 \<and>
              Canvas_render_image y2 clicked2 hovered2 c2 w3 = Some w4 \<and>
              gl_draws (RenderDrawData w4) =
                gl_draws w @ [(Some (program_id p2), texture_id (m_texture c1)),
                              (Some (program_id p2), texture_id (m_texture c2))])"
proof -
  have fr: "\<exists>w3 w4.
              Canvas_render_image y1 clicked1 hovered1 c1 (w\<lparr>draw_list := []\<rparr>) = Some w3 \<and>
              Canvas_render_image y2 clicked2 hovered2 c2 w3 = Some w4 \<and>
              gl_draws (RenderDrawData w4) =
                gl_draws w @ [(Some (program_id p2), texture_id (m_texture c1)),
                              (Some (program_id p2), texture_id (m_texture c2))]"
  proof -
    let ?w0 = "w\<lparr>draw_list := []\<rparr>"
    let ?I1 = "Cmd_Image (texture_id (m_texture c1)) (m_zoom c1)
                 (texture_width (m_texture c1)) (texture_height (m_texture c1))"
    let ?I2 = "Cmd_Image (texture_id (m_texture c2)) (m_zoom c2)
                 (texture_width (m_texture c2)) (texture_height (m_texture c2))"
    from render_image_shape [OF assms(1), of y1 clicked1 hovered1 ?w0]
    obtain T1 w3 where
      T1: "\<forall>t\<in>set T1. \<forall>v. run_draw_cmd t v = v" and
      r1: "Canvas_render_image y1 clicked1 hovered1 c1 ?w0 = Some w3" and
      d3: "draw_list w3 = draw_list ?w0 @ Callback_draw_with_custom_shader # ?I1 # T1 @
             [Callback_ResetRenderState]" and
      g3: "gl_draws w3 = gl_draws ?w0"
      by blast
    from render_image_shape [OF assms(2), of y2 clicked2 hovered2 w3]
    obtain T2 w4 where
      T2: "\<forall>t\<in>set T2. \<forall>v. run_draw_cmd t v = v" and
      r2: "Canvas_render_image y2 clicked2 hovered2 c2 w3 = Some w4" and
      d4: "draw_list w4 = draw_list w3 @ Callback_draw_with_custom_shader # ?I2 # T2 @
             [Callback_ResetRenderState]" and
      cd: "callback_data w4 = (program_id p2, texture_id (m_texture c2))" and
      g4: "gl_draws w4 = gl_draws w3"
      by blast
    let ?S1 = "Callback_draw_with_custom_shader # ?I1 # T1 @ [Callback_ResetRenderState]"
    let ?S2 = "Callback_draw_with_custom_shader # ?I2 # T2 @ [Callback_ResetRenderState]"
    have dl: "draw_list w4 = ?S1 @ ?S2"
      by (simp add: d4 d3)
    have gd: "gl_draws w4 = gl_draws w"
      by (simp add: g4 g3)
    define v1 where "v1 = fold run_draw_cmd ?S1 w4"
    have "RenderDrawData w4 = fold run_draw_cmd ?S2 v1"
      unfolding RenderDrawData_def dl v1_def by (simp only: fold_append comp_apply)
    moreover have "gl_draws v1 = gl_draws w4 @ [(Some (fst (callback_data w4)), texture_id (m_texture c1))]"
      unfolding v1_def by (rule fold_segment(1) [OF T1])
    moreover have "callback_data v1 = callback_data w4"
      unfolding v1_def by (rule fold_segment(2) [OF T1])
    moreover have "gl_draws (fold run_draw_cmd ?S2 v1) =
        gl_draws v1 @ [(Some (fst (callback_data v1)), texture_id (m_texture c2))]"
      by (rule fold_segment(1) [OF T2])
    ultimately have "gl_draws (RenderDrawData w4) =
        gl_draws w @ [(Some (program_id p2), texture_id (m_texture c1)),
                      (Some (program_id p2), texture_id (m_texture c2))]"
      by (simp add: cd gd)
    with r1 r2 show ?thesis by blast
  qed
  then show ?thesis
    by (simp add: use_shader_eq [OF assms(1)] use_shader_eq [OF assms(2)])
qed

theorem callback_slot_overwritten_witness:
  "deref_m_program color_canvas = Some \<lparr>program_id = 1, vertex_failed = False, fragment_failed = False\<rparr> \<and>
   deref_m_program monochrome_canvas = Some \<lparr>program_id = 3, vertex_failed = False, fragment_failed = False\<rparr> \<and>
   (\<exists>w1 w2. Canvas_use_shader color_canvas loaded_world = Some w1 \<and>
           callback_data w1 = (program_id \<lparr>program_id = 1, vertex_failed = False, fragment_failed = False\<rparr>, texture_id (m_texture color_canvas)) \<and>
           Canvas_use_shader monochrome_canvas w1 = Some w2 \<and>
           callback_data w2 = (program_id \<lparr>program_id = 3, vertex_failed = False, fragment_failed = False\<rparr>, texture_id (m_texture monochrome_canvas)) \<and>
           draw_list w2 = draw_list loaded_world @
             [Callback_draw_with_custom_shader, Callback_draw_with_custom_shader] \<and>
           (\<exists>w3 w4.
              Canvas_render_image float_zero False False color_canvas (loaded_world\<lparr>draw_list := []\<rparr>) = Some w3 \<and>
              Canvas_render_image float_zero False False monochrome_canvas w3 = Some w4 \<and>
              gl_draws (RenderDrawData w4) =
                gl_draws loaded_world @ [(Some (program_id \<lparr>program_id = 3, vertex_failed = False, fragment_failed = False\<rparr>), texture_id (m_texture color_canvas)),
                              (Some (program_id \<lparr>program_id = 3, vertex_failed = False, fragment_failed = False\<rparr>), texture_id (m_texture monochrome_canvas))]))"
proof -
  note h1 = deref_color_canvas and h2 = deref_monochrome_canvas
  from h1 h2 callback_slot_overwritten [OF h1 h2, where w = loaded_world
      and ?y1.0 = float_zero and ?clicked1.0 = False and ?hovered1.0 = False
      and ?y2.0 = float_zero and ?clicked2.0 = False and ?hovered2.0 = False]
  show ?thesis by (intro conjI)
qed

section \<open>Shader compilation failures\<close>

lemma Dialog_new_good: "Dialog_new good_env start_world = (Inr logo_dialog, logo_world)"
  by (simp add: Dialog_new_def Image_load_def Image_alloc_def Texture2D_new_def
      Texture2D_set_image_def pixels_of_def start_world_def grass_logo_png_def good_env_def
      logo_dialog_def logo_world_def logo_image_def has_failed_def shader_ids_def Let_def)

lemma Canvas_new_throws:
  "has_failed (compile e ''assets/shaders/basic.vert'' ''assets/shaders/color.frag'') \<Longrightarrow>
   fst (Canvas_new e w) = Inl ShaderException"
  by (simp add: Canvas_new_def deref_m_program_def Let_def split: prod.split)

lemma Dialog_new_throws:
  "has_failed (compile e ''assets/shaders/basic.vert'' ''assets/shaders/basic.frag'') \<Longrightarrow>
   fst (Dialog_new e w) = Inl ShaderException"
  by (simp add: Dialog_new_def Let_def split: prod.split)

lemma Canvas_new_checks_color_only:
  "fst (Canvas_new e w) = Inl ShaderException \<longleftrightarrow>
   has_failed (compile e ''assets/shaders/basic.vert'' ''assets/shaders/color.frag'')"
  by (simp add: Canvas_new_def deref_m_program_def Let_def split: prod.split)

text \<open>
  Claim C2, evaluated where the code departs from it. The fragment stage of the
  "grayscale" program fails to compile and the two other programs compile: the
  constructor of the canvas returns a canvas, with the failed program in its collection,
  since its body asks \<open>has_failed\<close> of the "color" program only. (The two lemmas
  above are the cases that do throw: the "color" program of the canvas and the one program
  of the dialog.)
\<close>

theorem Canvas_new_ignores_grayscale_failure:
  "has_failed (compile bad_grayscale_env ''assets/shaders/basic.vert''
                 ''assets/shaders/grayscale.frag'') \<and>
   (case fst (Canvas_new bad_grayscale_env start_world) of
      Inl x \<Rightarrow> False
    | Inr c \<Rightarrow> map_option has_failed (m_programs c ''grayscale'') = Some True \<and>
               m_program c = ''color'')"
  by (simp add: Canvas_new_def Image_load_def Image_alloc_def Texture2D_new_def
      start_world_def nature_png_def bad_grayscale_env_def good_env_def
      deref_m_program_def has_failed_def Let_def)

section \<open>Replacing the image\<close>

text \<open>
  \<open>to_grayscale\<close> and \<open>blur\<close> call no \<open>free\<close> of their own: the heap after the call is
  the heap the filter left. \<open>change_image\<close> and \<open>draw_circle\<close> release the buffer of
  the previous image before they load the new one.
\<close>

lemma to_grayscale_heap:
  "heap (snd (snd (Canvas_to_grayscale e c w))) = heap (snd (ImageUtils_to_grayscale e (m_image c) w))"
  by (simp add: Canvas_to_grayscale_def Let_def split: prod.split option.split)

lemma blur_heap:
  "heap (snd (Canvas_blur e c w)) = heap (snd (ImageUtils_blur e (m_image c) w))"
  by (simp add: Canvas_blur_def Let_def split: prod.split)

lemma change_image_releases:
  assumes "data (m_image c) = Some a" and "a \<noteq> next_addr w"
  shows "heap (snd (Canvas_change_image path_image c w)) a = None"
  using assms
  by (simp add: Canvas_change_image_def Image_free_def Image_load_def Image_alloc_def Let_def
      split: prod.split option.split)

lemma draw_circle_releases:
  assumes "data (m_image c) = Some a" and "a \<noteq> next_addr w"
  shows "heap (snd (Canvas_draw_circle e position_mouse_img c w)) a = None"
  using assms
  by (auto simp: Canvas_draw_circle_def Image_free_def Image_load_def Image_alloc_def Let_def
      raster_of_def pixels_of_def split: prod.split option.split)

section \<open>Command flags\<close>




















end
